theory Spec2Isabelle
  imports Complex_Main
begin

section \<open>Values of type float64\<close>

text \<open>
  A Go \<^verbatim>\<open>float64\<close> is modelled as a real number or one of the three special values of
  IEEE 754. The operators and the functions of package \<^verbatim>\<open>math\<close> follow the special
  cases listed in the Go documentation. Finite arithmetic is idealised: it is exact
  (no rounding, no overflow), and the two zeros are one value, the positive one.
\<close>

datatype float64 = Fin real | PInf | NInf | NaN

text \<open>The comparison \<^verbatim>\<open>a < b\<close>: false as soon as one side is NaN.\<close>

fun flt :: "float64 \<Rightarrow> float64 \<Rightarrow> bool" where
  "flt (Fin a) (Fin b) = (a < b)"
| "flt (Fin a) PInf = True"
| "flt NInf (Fin b) = True"
| "flt NInf PInf = True"
| "flt _ _ = False"

text \<open>The comparison \<^verbatim>\<open>a > b\<close>.\<close>

definition fgt :: "float64 \<Rightarrow> float64 \<Rightarrow> bool" where
  "fgt a b = flt b a"

fun fneg :: "float64 \<Rightarrow> float64" where
  "fneg (Fin a) = Fin (- a)"
| "fneg PInf = NInf"
| "fneg NInf = PInf"
| "fneg NaN = NaN"

fun fadd :: "float64 \<Rightarrow> float64 \<Rightarrow> float64" where
  "fadd (Fin a) (Fin b) = Fin (a + b)"
| "fadd NaN _ = NaN"
| "fadd _ NaN = NaN"
| "fadd PInf NInf = NaN"
| "fadd NInf PInf = NaN"
| "fadd PInf _ = PInf"
| "fadd _ PInf = PInf"
| "fadd NInf _ = NInf"
| "fadd _ NInf = NInf"

definition fsub :: "float64 \<Rightarrow> float64 \<Rightarrow> float64" where
  "fsub a b = fadd a (fneg b)"

text \<open>The sign of an infinite product or quotient: positive when the finite factor is.\<close>

definition signed_inf :: "bool \<Rightarrow> float64" where
  "signed_inf pos = (if pos then PInf else NInf)"

fun fmul :: "float64 \<Rightarrow> float64 \<Rightarrow> float64" where
  "fmul (Fin a) (Fin b) = Fin (a * b)"
| "fmul NaN _ = NaN"
| "fmul _ NaN = NaN"
| "fmul PInf (Fin b) = (if b = 0 then NaN else signed_inf (0 < b))"
| "fmul NInf (Fin b) = (if b = 0 then NaN else signed_inf (b < 0))"
| "fmul (Fin a) PInf = (if a = 0 then NaN else signed_inf (0 < a))"
| "fmul (Fin a) NInf = (if a = 0 then NaN else signed_inf (a < 0))"
| "fmul PInf PInf = PInf"
| "fmul NInf NInf = PInf"
| "fmul PInf NInf = NInf"
| "fmul NInf PInf = NInf"

fun fdiv :: "float64 \<Rightarrow> float64 \<Rightarrow> float64" where
  "fdiv (Fin a) (Fin b) =
     (if b \<noteq> 0 then Fin (a / b) else if a = 0 then NaN else signed_inf (0 < a))"
| "fdiv NaN _ = NaN"
| "fdiv _ NaN = NaN"
| "fdiv (Fin a) PInf = Fin 0"
| "fdiv (Fin a) NInf = Fin 0"
| "fdiv PInf (Fin b) = signed_inf (0 \<le> b)"
| "fdiv NInf (Fin b) = signed_inf (b < 0)"
| "fdiv PInf PInf = NaN"
| "fdiv PInf NInf = NaN"
| "fdiv NInf PInf = NaN"
| "fdiv NInf NInf = NaN"

subsection \<open>Package math\<close>

fun Exp :: "float64 \<Rightarrow> float64" where
  "Exp (Fin a) = Fin (exp a)"
| "Exp PInf = PInf"
| "Exp NInf = Fin 0"
| "Exp NaN = NaN"

fun Log :: "float64 \<Rightarrow> float64" where
  "Log (Fin a) = (if 0 < a then Fin (ln a) else if a = 0 then NInf else NaN)"
| "Log PInf = PInf"
| "Log NInf = NaN"
| "Log NaN = NaN"

fun Log1p :: "float64 \<Rightarrow> float64" where
  "Log1p (Fin a) = (if - 1 < a then Fin (ln (1 + a)) else if a = - 1 then NInf else NaN)"
| "Log1p PInf = PInf"
| "Log1p NInf = NaN"
| "Log1p NaN = NaN"

fun Sqrt :: "float64 \<Rightarrow> float64" where
  "Sqrt (Fin a) = (if 0 \<le> a then Fin (sqrt a) else NaN)"
| "Sqrt PInf = PInf"
| "Sqrt NInf = NaN"
| "Sqrt NaN = NaN"

fun Sin :: "float64 \<Rightarrow> float64" where
  "Sin (Fin a) = Fin (sin a)"
| "Sin _ = NaN"

fun Asin :: "float64 \<Rightarrow> float64" where
  "Asin (Fin a) = (if - 1 \<le> a \<and> a \<le> 1 then Fin (arcsin a) else NaN)"
| "Asin _ = NaN"

fun Cosh :: "float64 \<Rightarrow> float64" where
  "Cosh (Fin a) = Fin (cosh a)"
| "Cosh PInf = PInf"
| "Cosh NInf = PInf"
| "Cosh NaN = NaN"

fun Acosh :: "float64 \<Rightarrow> float64" where
  "Acosh (Fin a) = (if 1 \<le> a then Fin (arcosh a) else NaN)"
| "Acosh PInf = PInf"
| "Acosh NInf = NaN"
| "Acosh NaN = NaN"

text \<open>Whether a finite exponent is an integer, and an odd one.\<close>

definition is_int :: "real \<Rightarrow> bool" where
  "is_int b = (b = of_int \<lfloor>b\<rfloor>)"

definition is_odd_int :: "real \<Rightarrow> bool" where
  "is_odd_int b = (is_int b \<and> odd \<lfloor>b\<rfloor>)"

text \<open>
  \<^verbatim>\<open>math.Pow(x, y)\<close>. The first two tests are the cases \<^verbatim>\<open>Pow(x, 0) = 1\<close> and
  \<^verbatim>\<open>Pow(1, y) = 1\<close>, which hold for any other argument, NaN included.
\<close>

definition Pow :: "float64 \<Rightarrow> float64 \<Rightarrow> float64" where
  "Pow x y =
     (if y = Fin 0 \<or> x = Fin 1 then Fin 1
      else case x of
        NaN \<Rightarrow> NaN
      | Fin a \<Rightarrow>
          (case y of
             NaN \<Rightarrow> NaN
           | PInf \<Rightarrow> (if a = - 1 then Fin 1 else if 1 < \<bar>a\<bar> then PInf else Fin 0)
           | NInf \<Rightarrow> (if a = - 1 then Fin 1 else if 1 < \<bar>a\<bar> then Fin 0 else PInf)
           | Fin b \<Rightarrow>
               (if a = 0 then (if b < 0 then PInf else Fin 0)
                else if 0 < a then Fin (a powr b)
                else if is_int b then Fin (a powi \<lfloor>b\<rfloor>)
                else NaN))
      | PInf \<Rightarrow>
          (case y of
             NaN \<Rightarrow> NaN
           | PInf \<Rightarrow> PInf
           | NInf \<Rightarrow> Fin 0
           | Fin b \<Rightarrow> (if 0 < b then PInf else Fin 0))
      | NInf \<Rightarrow>
          (case y of
             NaN \<Rightarrow> NaN
           | PInf \<Rightarrow> PInf
           | NInf \<Rightarrow> Fin 0
           | Fin b \<Rightarrow>
               (if 0 < b then (if is_odd_int b then NInf else PInf) else Fin 0)))"

section \<open>Run-time panics\<close>

text \<open>
  The one way a function of the package can fail is an index out of range; the error
  carries the index and the length of the slice, as the panic of the Go runtime does.
\<close>

datatype error = IndexOutOfRange int nat

definition bindE :: "error + 'a \<Rightarrow> ('a \<Rightarrow> error + 'b) \<Rightarrow> error + 'b" where
  "bindE m k = (case m of Inl e \<Rightarrow> Inl e | Inr x \<Rightarrow> k x)"

text \<open>\<^verbatim>\<open>xs[i]\<close> for a Go \<^verbatim>\<open>int\<close> index.\<close>

definition index :: "'a list \<Rightarrow> int \<Rightarrow> error + 'a" where
  "index xs i =
     (if 0 \<le> i \<and> i < int (length xs) then Inr (xs ! nat i)
      else Inl (IndexOutOfRange i (length xs)))"

text \<open>\<^verbatim>\<open>xs[i][j]\<close>.\<close>

definition index2 :: "'a list list \<Rightarrow> int \<Rightarrow> int \<Rightarrow> error + 'a" where
  "index2 xs i j = bindE (index xs i) (\<lambda>row. index row j)"

section \<open>The curves\<close>

text \<open>
  The interface \<^verbatim>\<open>NonLinear\<close> and the types that implement it, one constructor for each
  struct, with the struct's fields in their order.
\<close>

datatype NonLinear =
    NLLinear
  | NLSquare
  | NLCube
  | NLExponential float64 float64
  | NLLogarithmic float64 float64
  | NLSin
  | NLSin1
  | NLSin2
  | NLCircle1
  | NLCircle2
  | NLLame float64 float64 float64 float64
  | NLCatenary
  | NLGauss float64 float64 float64
  | NLLogistic float64 float64 float64 float64
  | NLP3
  | NLP5
  | NLCompound "NonLinear list"
  | NLOmt NonLinear
  | NLStopped "float64 list list"

text \<open>\<^verbatim>\<open>math.Pi\<close>.\<close>

definition Pi :: float64 where
  "Pi = Fin pi"

subsection \<open>Constructors\<close>

definition NewNLExponential :: "float64 \<Rightarrow> NonLinear" where
  "NewNLExponential k = NLExponential k (fdiv (Fin 1) (fsub (Exp k) (Fin 1)))"

definition NewNLLogarithmic :: "float64 \<Rightarrow> NonLinear" where
  "NewNLLogarithmic k = NLLogarithmic k (fdiv (Fin 1) (Log1p k))"

definition NewNLLame :: "float64 \<Rightarrow> float64 \<Rightarrow> NonLinear" where
  "NewNLLame n m = NLLame n m (fdiv (Fin 1) n) (fdiv (Fin 1) m)"

definition NewNLGauss :: "float64 \<Rightarrow> NonLinear" where
  "NewNLGauss k =
     (let offs = Exp (fmul (fmul (fneg k) k) (Fin 0.5));
          scale = fdiv (Fin 1) (fsub (Fin 1) offs)
      in NLGauss k offs scale)"

definition logisticTransform :: "float64 \<Rightarrow> float64" where
  "logisticTransform t = fdiv (Fin 1) (fadd (Fin 1) (Exp (fneg t)))"

definition logisticInvTransform :: "float64 \<Rightarrow> float64" where
  "logisticInvTransform v = fneg (Log (fsub (fdiv (Fin 1) v) (Fin 1)))"

definition NewNLLogistic :: "float64 \<Rightarrow> float64 \<Rightarrow> NonLinear" where
  "NewNLLogistic k mp =
     (let v0 = fmul (fneg mp) k;
          v0 = logisticTransform v0;
          v1 = fmul (fsub (Fin 1) mp) k;
          v1 = logisticTransform v1
      in NLLogistic k mp v0 (fdiv (Fin 1) (fsub v1 v0)))"


definition NewNLOmt :: "NonLinear \<Rightarrow> NonLinear" where
  "NewNLOmt f = NLOmt f"

definition NewNLStopped :: "float64 list list \<Rightarrow> NonLinear" where
  "NewNLStopped stops = NLStopped stops"

subsection \<open>The stopped curve\<close>

text \<open>
  The scanning loop of \<^verbatim>\<open>NLStopped.Transform\<close>, from index \<open>i\<close> on. It returns the
  index at which the loop ends and the values of \<^verbatim>\<open>t0\<close> and \<^verbatim>\<open>v0\<close> there.
\<close>

function stoppedScan ::
  "float64 list list \<Rightarrow> float64 \<Rightarrow> int \<Rightarrow> error + (int \<times> float64 \<times> float64)" where
  "stoppedScan stops t i =
     (if i < int (length stops) then
        (case index2 stops i 0 of
           Inl e \<Rightarrow> Inl e
         | Inr x \<Rightarrow>
             if fgt x t then
               (if 1 < i then
                  bindE (index2 stops (i - 1) 0) (\<lambda>t0.
                  bindE (index2 stops (i - 1) 1) (\<lambda>v0. Inr (i, t0, v0)))
                else Inr (i, Fin 0, Fin 0))
             else stoppedScan stops t (i + 1))
      else Inr (i, Fin 0, Fin 0))"
  by pat_completeness auto
termination
  by (relation "measure (\<lambda>(stops, t, i). nat (int (length stops) - i))") auto

definition StoppedTransform :: "float64 list list \<Rightarrow> float64 \<Rightarrow> error + float64" where
  "StoppedTransform stops t =
     (let ns = int (length stops) in
      bindE (stoppedScan stops t 0) (\<lambda>(i, t0, v0).
      bindE (if i = ns then
               bindE (index2 stops (ns - 1) 0) (\<lambda>a.
               bindE (index2 stops (ns - 1) 1) (\<lambda>b. Inr (a, b)))
             else Inr (t0, v0)) (\<lambda>(t0, v0).
      bindE (if i < ns then
               bindE (index2 stops i 0) (\<lambda>a.
               bindE (index2 stops i 1) (\<lambda>b. Inr (a, b)))
             else Inr (Fin 1, Fin 1)) (\<lambda>(t1, v1).
      let dt = fsub t1 t0;
          t = fdiv (fsub t t0) dt
      in Inr (fadd (fmul (fsub (Fin 1) t) v0) (fmul t v1))))))"

subsection \<open>Transform\<close>

fun Transform :: "NonLinear \<Rightarrow> float64 \<Rightarrow> error + float64"
  and TransformEach :: "NonLinear list \<Rightarrow> float64 \<Rightarrow> error + float64" where
  "Transform NLLinear t = Inr t"
| "Transform NLSquare t = Inr (fmul t t)"
| "Transform NLCube t = Inr (fmul (fmul t t) t)"
| "Transform (NLExponential K Scale) t = Inr (fmul (fsub (Exp (fmul t K)) (Fin 1)) Scale)"
| "Transform (NLLogarithmic K Scale) t = Inr (fmul (Log1p (fmul t K)) Scale)"
| "Transform NLSin t =
     Inr (fdiv (fadd (Sin (fmul (fsub t (Fin 0.5)) Pi)) (Fin 1)) (Fin 2))"
| "Transform NLSin1 t = Inr (Sin (fdiv (fmul t Pi) (Fin 2)))"
| "Transform NLSin2 t =
     Inr (fadd (Sin (fdiv (fmul (fsub t (Fin 1)) Pi) (Fin 2))) (Fin 1))"
| "Transform NLCircle1 t =
     (if flt t (Fin 1) then Inr (fsub (Fin 1) (Sqrt (fsub (Fin 1) (fmul t t))))
      else Inr (Fin 1))"
| "Transform NLCircle2 t = Inr (Sqrt (fmul t (fsub (Fin 2) t)))"
| "Transform (NLLame N M Odn Odm) t =
     (if flt t (Fin 1) then
        (let vm = fsub (Fin 1) (Pow t N) in Inr (fsub (Fin 1) (Pow vm Odm)))
      else Inr (Fin 1))"
| "Transform NLCatenary t =
     Inr (fdiv (fsub (Cosh t) (Fin 1)) (fsub (Cosh (Fin 1)) (Fin 1)))"
| "Transform (NLGauss K Offs Scale) t =
     (let x = fmul K (fsub t (Fin 1));
          x = fmul x (fmul (Fin (- 0.5)) x)
      in Inr (fmul (fsub (Exp x) Offs) Scale))"
| "Transform (NLLogistic K Mp Offs Scale) t =
     (let t = fmul (fsub t Mp) K
      in Inr (fmul (fsub (logisticTransform t) Offs) Scale))"
| "Transform NLP3 t = Inr (fmul (fmul t t) (fsub (Fin 3) (fmul (Fin 2) t)))"
| "Transform NLP5 t =
     Inr (fmul (fmul (fmul t t) t)
            (fadd (fmul t (fsub (fmul t (Fin 6)) (Fin 15))) (Fin 10)))"
| "Transform (NLCompound Fs) t = TransformEach Fs t"
| "Transform (NLOmt F) t =
     (let t = fsub (Fin 1) t in
      if fgt t (Fin 0) then
        (case Transform F t of Inl e \<Rightarrow> Inl e | Inr w \<Rightarrow> Inr (fsub (Fin 1) w))
      else Inr (Fin 1))"
| "Transform (NLStopped Stops) t = StoppedTransform Stops t"
| "TransformEach [] t = Inr t"
| "TransformEach (f # fs) t =
     (case Transform f t of Inl e \<Rightarrow> Inl e | Inr t' \<Rightarrow> TransformEach fs t')"

subsection \<open>The numerical inverse\<close>

text \<open>
  The loop of \<^verbatim>\<open>bsInv\<close> with \<open>n\<close> iterations left. The curve is given by its method
  \<^verbatim>\<open>Transform\<close>, which is all that \<^verbatim>\<open>bsInv\<close> uses of it.
\<close>

fun bsLoop ::
  "nat \<Rightarrow> float64 \<Rightarrow> float64 \<Rightarrow> float64 \<Rightarrow> (float64 \<Rightarrow> error + float64) \<Rightarrow> error + float64" where
  "bsLoop 0 t s v f = Inr t"
| "bsLoop (Suc n) t s v f =
     (case f t of
        Inl e \<Rightarrow> Inl e
      | Inr w \<Rightarrow>
          bsLoop n (if fgt w v then fsub t s else fadd t s) (fdiv s (Fin 2)) v f)"

definition bsInv :: "float64 \<Rightarrow> (float64 \<Rightarrow> error + float64) \<Rightarrow> error + float64" where
  "bsInv v f = bsLoop 16 (Fin 0.5) (Fin 0.25) v f"

subsection \<open>InvTransform\<close>

text \<open>
  The loop of \<^verbatim>\<open>NLCompound.InvTransform\<close> runs from the last curve of the slice to the
  first: \<open>InvTransformEach\<close> goes through the tail before it applies the head.
\<close>

fun InvTransform :: "NonLinear \<Rightarrow> float64 \<Rightarrow> error + float64"
  and InvTransformEach :: "NonLinear list \<Rightarrow> float64 \<Rightarrow> error + float64" where
  "InvTransform NLLinear v = Inr v"
| "InvTransform NLSquare v = Inr (Sqrt v)"
| "InvTransform NLCube v = Inr (Pow v (Fin (1 / 3)))"
| "InvTransform (NLExponential K Scale) v = Inr (fdiv (Log1p (fdiv v Scale)) K)"
| "InvTransform (NLLogarithmic K Scale) v =
     Inr (fdiv (fsub (Exp (fdiv v Scale)) (Fin 1)) K)"
| "InvTransform NLSin v =
     Inr (fadd (fdiv (Asin (fsub (fmul v (Fin 2)) (Fin 1))) Pi) (Fin 0.5))"
| "InvTransform NLSin1 v = Inr (fmul (fdiv (Asin v) Pi) (Fin 2))"
| "InvTransform NLSin2 v =
     Inr (fadd (fdiv (fmul (Asin (fsub v (Fin 1))) (Fin 2)) Pi) (Fin 1))"
| "InvTransform NLCircle1 v =
     (if flt v (Fin 1) then
        Inr (Sqrt (fsub (Fin 1) (fmul (fsub v (Fin 1)) (fsub v (Fin 1)))))
      else Inr (Fin 1))"
| "InvTransform NLCircle2 v = Inr (fsub (Fin 1) (Sqrt (fsub (Fin 1) (fmul v v))))"
| "InvTransform (NLLame N M Odn Odm) v =
     (if flt v (Fin 1) then
        (let v = fsub (Fin 1) v;
             tn = fsub (Fin 1) (Pow v M)
         in Inr (Pow tn Odn))
      else Inr (Fin 1))"
| "InvTransform NLCatenary v =
     Inr (Acosh (fadd (fmul v (fsub (Cosh (Fin 1)) (Fin 1))) (Fin 1)))"
| "InvTransform (NLGauss K Offs Scale) v =
     (let v = fdiv v Scale;
          v = fadd v Offs;
          v = Log v;
          v = fmul v (Fin (- 2));
          v = Sqrt v
      in Inr (fsub (Fin 1) (fdiv v K)))"
| "InvTransform (NLLogistic K Mp Offs Scale) v =
     (let v = fdiv v Scale;
          v = fadd v Offs;
          v = logisticInvTransform v
      in Inr (fadd (fdiv v K) Mp))"
| "InvTransform NLP3 v = bsInv v (Transform NLP3)"
| "InvTransform NLP5 v = bsInv v (Transform NLP5)"
| "InvTransform (NLCompound Fs) v = InvTransformEach Fs v"
| "InvTransform (NLOmt F) v =
     (let v = fsub (Fin 1) v in
      if fgt v (Fin 0) then
        (case InvTransform F (fsub (Fin 1) v) of
           Inl e \<Rightarrow> Inl e
         | Inr w \<Rightarrow> Inr (fsub (Fin 1) w))
      else Inr (Fin 1))"
| "InvTransform (NLStopped Stops) v = bsInv v (Transform (NLStopped Stops))"
| "InvTransformEach [] v = Inr v"
| "InvTransformEach (f # fs) v =
     (case InvTransformEach fs v of Inl e \<Rightarrow> Inl e | Inr v' \<Rightarrow> InvTransform f v')"

section \<open>Interpolation\<close>

text \<open>
  The three functions take a curve through the method they call: \<^verbatim>\<open>NLerp\<close> through
  \<^verbatim>\<open>Transform\<close>, \<^verbatim>\<open>InvNLerp\<close> through \<^verbatim>\<open>InvTransform\<close>.
\<close>

definition NLerp ::
  "float64 \<Rightarrow> float64 \<Rightarrow> float64 \<Rightarrow> (float64 \<Rightarrow> error + float64) \<Rightarrow> error + float64" where
  "NLerp t start end' f =
     (if flt t (Fin 0) then Inr start
      else if fgt t (Fin 1) then Inr end'
      else bindE (f t) (\<lambda>t. Inr (fadd (fmul (fsub (Fin 1) t) start) (fmul t end'))))"

definition InvNLerp ::
  "float64 \<Rightarrow> float64 \<Rightarrow> float64 \<Rightarrow> (float64 \<Rightarrow> error + float64) \<Rightarrow> error + float64" where
  "InvNLerp v start end' f =
     (let t = fdiv (fsub v start) (fsub end' start) in
      if flt t (Fin 0) then Inr (Fin 0)
      else if fgt t (Fin 1) then Inr (Fin 1)
      else f t)"

definition RemapNL ::
  "float64 \<Rightarrow> float64 \<Rightarrow> float64 \<Rightarrow> float64 \<Rightarrow> float64 \<Rightarrow>
   (float64 \<Rightarrow> error + float64) \<Rightarrow> (float64 \<Rightarrow> error + float64) \<Rightarrow> error + float64" where
  "RemapNL v istart iend ostart oend fi fo =
     bindE (InvNLerp v istart iend fi) (\<lambda>t. NLerp t ostart oend fo)"

section \<open>Valid curves\<close>

text \<open>
  A stop is a pair of finite numbers strictly between the anchors \<open>(0, 0)\<close> and
  \<open>(1, 1)\<close>; \<open>stopT\<close> and \<open>stopV\<close> read its two coordinates.
\<close>

fun stopOk :: "float64 list \<Rightarrow> bool" where
  "stopOk [Fin t, Fin v] = (0 < t \<and> t < 1 \<and> 0 < v \<and> v < 1)"
| "stopOk _ = False"

definition stopT :: "float64 list \<Rightarrow> real" where
  "stopT row = (case row of Fin t # _ \<Rightarrow> t | _ \<Rightarrow> 0)"

definition stopV :: "float64 list \<Rightarrow> real" where
  "stopV row = (case row of _ # Fin v # _ \<Rightarrow> v | _ \<Rightarrow> 0)"

text \<open>
  A well-formed stop list, as the comment on the field \<^verbatim>\<open>Stops\<close> asks: pairs of
  \<open>t, v\<close>, both strictly ascending. The list is not empty.
\<close>

definition wfStops :: "float64 list list \<Rightarrow> bool" where
  "wfStops stops =
     (stops \<noteq> [] \<and> list_all stopOk stops \<and>
      sorted_wrt (<) (map stopT stops) \<and> sorted_wrt (<) (map stopV stops))"

text \<open>
  A curve built by the constructors of the package from valid parameters: a finite
  rate other than zero for the exponential and the Gaussian curve, a finite rate above
  \<open>-1\<close> and other than zero for the logarithmic curve (\<^verbatim>\<open>math.Log1p\<close> has no finite
  value at or below \<open>-1\<close>), positive exponents for the superellipse, a positive
  steepness and a midpoint strictly between 0 and 1 for the logistic curve, a
  well-formed stop list, and valid children for the two combinators.
\<close>

fun valid :: "NonLinear \<Rightarrow> bool" where
  "valid (NLExponential K Scale) =
     (case K of Fin k \<Rightarrow> k \<noteq> 0 \<and> NLExponential K Scale = NewNLExponential K | _ \<Rightarrow> False)"
| "valid (NLLogarithmic K Scale) =
     (case K of
        Fin k \<Rightarrow> - 1 < k \<and> k \<noteq> 0 \<and> NLLogarithmic K Scale = NewNLLogarithmic K
      | _ \<Rightarrow> False)"
| "valid (NLLame N M Odn Odm) =
     (case (N, M) of
        (Fin n, Fin m) \<Rightarrow> 0 < n \<and> 0 < m \<and> NLLame N M Odn Odm = NewNLLame N M
      | _ \<Rightarrow> False)"
| "valid (NLGauss K Offs Scale) =
     (case K of Fin k \<Rightarrow> k \<noteq> 0 \<and> NLGauss K Offs Scale = NewNLGauss K | _ \<Rightarrow> False)"
| "valid (NLLogistic K Mp Offs Scale) =
     (case (K, Mp) of
        (Fin k, Fin mp) \<Rightarrow>
          0 < k \<and> 0 < mp \<and> mp < 1 \<and> NLLogistic K Mp Offs Scale = NewNLLogistic K Mp
      | _ \<Rightarrow> False)"
| "valid (NLCompound Fs) = list_all valid Fs"
| "valid (NLOmt F) = valid F"
| "valid (NLStopped Stops) = wfStops Stops"
| "valid _ = True"

section \<open>The stopped curve as the specification describes it\<close>

text \<open>
  Piecewise-linear interpolation through the stops, here pairs of reals, with the
  anchors \<open>(0, 0)\<close> and \<open>(1, 1)\<close>: the segment starts at the last stop whose
  \<open>t\<close>-coordinate is at most \<open>t\<close> and ends at the first stop whose \<open>t\<close>-coordinate is
  above \<open>t\<close>.
\<close>

definition specLower :: "(real \<times> real) list \<Rightarrow> real \<Rightarrow> real \<times> real" where
  "specLower stops t =
     (case filter (\<lambda>p. fst p \<le> t) stops of [] \<Rightarrow> (0, 0) | p # ps \<Rightarrow> last (p # ps))"

definition specUpper :: "(real \<times> real) list \<Rightarrow> real \<Rightarrow> real \<times> real" where
  "specUpper stops t =
     (case filter (\<lambda>p. t < fst p) stops of [] \<Rightarrow> (1, 1) | p # ps \<Rightarrow> p)"

definition specStopped :: "(real \<times> real) list \<Rightarrow> real \<Rightarrow> real" where
  "specStopped stops t =
     (let (t0, v0) = specLower stops t;
          (t1, v1) = specUpper stops t;
          u = (t - t0) / (t1 - t0)
      in (1 - u) * v0 + u * v1)"

section \<open>Basic facts\<close>

text \<open>The scanning loop is unfolded one iteration at a time, by hand.\<close>

declare stoppedScan.simps [simp del]

lemma bindE_Inl [simp]: "bindE (Inl e) k = Inl e"
  by (simp add: bindE_def)

lemma bindE_Inr [simp]: "bindE (Inr x) k = k x"
  by (simp add: bindE_def)

lemma flt_gt_one_not_lt_zero: "fgt t (Fin 1) \<Longrightarrow> \<not> flt t (Fin 0)"
  by (cases t) (auto simp: fgt_def)

lemma Pow_two: "Pow (Fin t) (Fin 2) = Fin (t * t)"
  by (simp add: Pow_def is_int_def power2_eq_square)

lemma Pow_half: "0 \<le> a \<Longrightarrow> Pow (Fin a) (Fin (1 / 2)) = Fin (sqrt a)"
  by (simp add: Pow_def powr_half_sqrt)


subsection \<open>Reading a well-formed stop list\<close>

lemma stopOk_cases:
  "stopOk row \<Longrightarrow> \<exists>t v. row = [Fin t, Fin v] \<and> 0 < t \<and> t < 1 \<and> 0 < v \<and> v < 1"
  by (erule stopOk.elims) simp_all

lemma index2_stopOk:
  assumes "list_all stopOk stops" "0 \<le> i" "i < int (length stops)"
  shows "\<exists>t v. index2 stops i 0 = Inr (Fin t) \<and> index2 stops i 1 = Inr (Fin v) \<and>
     0 < t \<and> t < 1 \<and> 0 < v \<and> v < 1"
proof -
  have "stops ! nat i \<in> set stops" using assms by simp
  then have "stopOk (stops ! nat i)" using assms(1) by (simp add: list_all_iff)
  from stopOk_cases[OF this] obtain t v where "stops ! nat i = [Fin t, Fin v]"
    "0 < t" "t < 1" "0 < v" "v < 1" by blast
  then show ?thesis using assms by (simp add: index2_def index_def)
qed


text \<open>On a well-formed stop list the loop ends without a panic, at an index of the list
  or one past its end.\<close>

lemma stoppedScan_returns:
  "list_all stopOk stops \<Longrightarrow> 0 \<le> i \<Longrightarrow> i \<le> int (length stops) \<Longrightarrow>
   \<exists>j a b. stoppedScan stops t i = Inr (j, a, b) \<and> 0 \<le> j \<and> j \<le> int (length stops)"
proof (induction stops t i rule: stoppedScan.induct)
  case (1 stops t i)
  show ?case
  proof (cases "i < int (length stops)")
    case True
    from index2_stopOk[OF "1.prems"(1,2) True] obtain x where
      x: "index2 stops i 0 = Inr (Fin x)" by blast
    show ?thesis
    proof (cases "fgt (Fin x) t")
      case gt: True
      show ?thesis
      proof (cases "1 < i")
        case True
        with index2_stopOk[OF "1.prems"(1), of "i - 1"] \<open>i < int (length stops)\<close>
        obtain a b where
          "index2 stops (i - 1) 0 = Inr (Fin a)" "index2 stops (i - 1) 1 = Inr (Fin b)"
          by auto
        with x gt True \<open>i < int (length stops)\<close> "1.prems" show ?thesis
          by (subst stoppedScan.simps) simp
      next
        case False
        with x gt \<open>i < int (length stops)\<close> "1.prems" show ?thesis
          by (subst stoppedScan.simps) simp
      qed
    next
      case False
      with "1.IH"[OF True x False] "1.prems" True x show ?thesis
        by (subst stoppedScan.simps) simp
    qed
  next
    case False
    with "1.prems" show ?thesis by (subst stoppedScan.simps) simp
  qed
qed

lemma StoppedTransform_returns:
  assumes "wfStops stops"
  shows "\<exists>y. StoppedTransform stops t = Inr y"
proof -
  from assms have ne: "0 < int (length stops)" and ok: "list_all stopOk stops"
    by (auto simp: wfStops_def)
  from stoppedScan_returns[OF ok, of 0 t] obtain j a b where
    scan: "stoppedScan stops t 0 = Inr (j, a, b)" and j: "0 \<le> j" "j \<le> int (length stops)"
    by auto
  from index2_stopOk[OF ok, of "int (length stops) - 1"] ne obtain tl vl where
    l: "index2 stops (int (length stops) - 1) 0 = Inr (Fin tl)"
       "index2 stops (int (length stops) - 1) 1 = Inr (Fin vl)" by auto
  show ?thesis
  proof (cases "j = int (length stops)")
    case True
    then show ?thesis using scan l by (simp add: StoppedTransform_def Let_def)
  next
    case False
    then have lt: "j < int (length stops)" using j by simp
    from index2_stopOk[OF ok j(1) lt] obtain tj vj where
      "index2 stops j 0 = Inr (Fin tj)" "index2 stops j 1 = Inr (Fin vj)" by blast
    then show ?thesis using scan False lt by (simp add: StoppedTransform_def Let_def)
  qed
qed



subsection \<open>The bisection loop\<close>

lemma bsLoop_returns:
  "\<forall>x. \<exists>y. f x = Inr y \<Longrightarrow> \<exists>r. bsLoop n t s v f = Inr r"
proof (induction n arbitrary: t s)
  case 0
  then show ?case by simp
next
  case (Suc n)
  from Suc.prems obtain w where "f t = Inr w" by blast
  then show ?case using Suc.IH[OF Suc.prems] by simp
qed

text \<open>Whatever the comparisons say, \<open>n\<close> steps move the estimate by less than \<open>2 * s\<close>.\<close>

lemma bsLoop_range:
  "0 \<le> s \<Longrightarrow> bsLoop n (Fin x) (Fin s) v f = Inr r \<Longrightarrow>
   \<exists>y. r = Fin y \<and> \<bar>y - x\<bar> \<le> 2 * s - 2 * s / 2 ^ n"
proof (induction n arbitrary: x s)
  case 0
  then show ?case by auto
next
  case (Suc n)
  from Suc.prems(2) obtain w where w: "f (Fin x) = Inr w"
    by (auto split: sum.splits)
  define x' where "x' = (if fgt w v then x - s else x + s)"
  have step: "bsLoop n (Fin x') (Fin (s / 2)) v f = Inr r"
    using Suc.prems(2) by (cases "fgt w v") (simp_all add: w x'_def fsub_def)
  from Suc.IH[OF _ step] Suc.prems(1)
  obtain y where r: "r = Fin y"
    and b: "\<bar>y - x'\<bar> \<le> 2 * (s / 2) - 2 * (s / 2) / 2 ^ n" by auto
  have "\<bar>x' - x\<bar> = s" using Suc.prems(1) by (simp add: x'_def)
  then have "\<bar>y - x\<bar> \<le> \<bar>y - x'\<bar> + s" by linarith
  moreover have "2 * (s / 2) - 2 * (s / 2) / 2 ^ n + s = 2 * s - 2 * s / 2 ^ Suc n"
    by simp
  ultimately have "\<bar>y - x\<bar> \<le> 2 * s - 2 * s / 2 ^ Suc n" using b by linarith
  then show ?case using r by auto
qed

lemma bsInv_in_range:
  assumes "bsInv v f = Inr r"
  shows "\<exists>t. r = Fin t \<and> 1 / 2 ^ 17 \<le> t \<and> t \<le> 1 - 1 / 2 ^ 17"
proof -
  from assms have "bsLoop 16 (Fin (1 / 2)) (Fin (1 / 4)) v f = Inr r"
    by (simp add: bsInv_def)
  from bsLoop_range[OF _ this]
  obtain y where r: "r = Fin y"
    and b: "\<bar>y - 1 / 2\<bar> \<le> 2 * (1 / 4) - 2 * (1 / 4) / 2 ^ 16" by auto
  have "(2::real) * (1 / 4) - 2 * (1 / 4) / 2 ^ 16 = 1 / 2 - 1 / 2 ^ 17" by simp
  then have "1 / 2 ^ 17 \<le> y \<and> y \<le> 1 - 1 / 2 ^ 17" using b by linarith
  then show ?thesis using r by blast
qed

lemma bsInv_returns: "\<forall>x. \<exists>y. f x = Inr y \<Longrightarrow> \<exists>r. bsInv v f = Inr r"
  by (simp add: bsInv_def bsLoop_returns)

text \<open>
  The estimate is always an odd multiple of twice the step: the loop never stops on a
  value it has already tried.
\<close>

lemma bsLoop_odd:
  "bsLoop n (Fin ((2 * real j + 1) * (2 * s))) (Fin s) v f = Inr r \<Longrightarrow>
   \<exists>k::nat. r = Fin ((2 * real k + 1) * (2 * s / 2 ^ n))"
proof (induction n arbitrary: j s)
  case 0
  then show ?case by auto
next
  case (Suc n)
  from Suc.prems obtain w where w: "f (Fin ((2 * real j + 1) * (2 * s))) = Inr w"
    by (auto split: sum.splits)
  have dn: "(2 * real j + 1) * (2 * s) - s = (2 * real (2 * j) + 1) * (2 * (s / 2))"
    by (simp add: algebra_simps)
  have up: "(2 * real j + 1) * (2 * s) + s = (2 * real (2 * j + 1) + 1) * (2 * (s / 2))"
    by (simp add: algebra_simps)
  show ?case
  proof (cases "fgt w v")
    case True
    with Suc.prems w have
      "bsLoop n (Fin ((2 * real (2 * j) + 1) * (2 * (s / 2)))) (Fin (s / 2)) v f = Inr r"
      by (simp add: fsub_def dn del: of_nat_mult)
    from Suc.IH[OF this] show ?thesis by simp
  next
    case False
    with Suc.prems w have
      "bsLoop n (Fin ((2 * real (2 * j + 1) + 1) * (2 * (s / 2)))) (Fin (s / 2)) v f = Inr r"
      by (simp add: up del: of_nat_mult of_nat_add)
    from Suc.IH[OF this] show ?thesis by simp
  qed
qed

lemma bsInv_odd: "bsInv v f = Inr r \<Longrightarrow> \<exists>k::nat. r = Fin ((2 * real k + 1) / 2 ^ 17)"
proof -
  assume "bsInv v f = Inr r"
  then have "bsLoop 16 (Fin ((2 * real 0 + 1) * (2 * (1 / 4)))) (Fin (1 / 4)) v f = Inr r"
    by (simp add: bsInv_def)
  from bsLoop_odd[OF this] show ?thesis by simp
qed

text \<open>
  With a strictly increasing curve the comparison tells on which side of the estimate
  the target lies, and the distance to the target halves with the step.
\<close>

lemma bsLoop_bound:
  assumes mono: "\<forall>x y. 0 \<le> x \<and> x < y \<and> y \<le> 1 \<longrightarrow> g x < g y"
    and f: "\<forall>x. 0 \<le> x \<and> x \<le> 1 \<longrightarrow> f (Fin x) = Inr (Fin (g x))"
    and t: "0 \<le> t" "t \<le> 1"
  shows "0 \<le> s \<Longrightarrow> 2 * s \<le> x \<Longrightarrow> x \<le> 1 - 2 * s \<Longrightarrow> \<bar>x - t\<bar> \<le> 2 * s \<Longrightarrow>
    \<exists>r. bsLoop n (Fin x) (Fin s) (Fin (g t)) f = Inr (Fin r) \<and> \<bar>r - t\<bar> \<le> 2 * s / 2 ^ n"
proof (induction n arbitrary: x s)
  case 0
  then show ?case by simp
next
  case (Suc n)
  have x01: "0 \<le> x" "x \<le> 1" using Suc.prems by linarith+
  have fx: "f (Fin x) = Inr (Fin (g x))" using f x01 by blast
  have cmp: "g t < g x \<longleftrightarrow> t < x"
  proof
    assume gt: "g t < g x"
    show "t < x"
    proof (rule ccontr)
      assume "\<not> t < x"
      then have "x = t \<or> x < t" by linarith
      then have "g x \<le> g t" using mono x01 t by (auto intro: less_imp_le)
      with gt show False by simp
    qed
  next
    assume "t < x"
    then show "g t < g x" using mono x01 t by blast
  qed
  define x' where "x' = (if t < x then x - s else x + s)"
  have step: "bsLoop (Suc n) (Fin x) (Fin s) (Fin (g t)) f
      = bsLoop n (Fin x') (Fin (s / 2)) (Fin (g t)) f"
    by (simp add: fx x'_def fsub_def fgt_def cmp)
  have p: "0 \<le> s / 2" "2 * (s / 2) \<le> x'" "x' \<le> 1 - 2 * (s / 2)"
    "\<bar>x' - t\<bar> \<le> 2 * (s / 2)"
    using Suc.prems by (auto simp: x'_def abs_le_iff)
  from Suc.IH[OF p]
  obtain r where r: "bsLoop n (Fin x') (Fin (s / 2)) (Fin (g t)) f = Inr (Fin r)"
    and b: "\<bar>r - t\<bar> \<le> 2 * (s / 2) / 2 ^ n" by auto
  from b have "\<bar>r - t\<bar> \<le> 2 * s / 2 ^ Suc n" by (simp add: field_simps)
  then show ?case using step r by auto
qed

subsection \<open>Arithmetic of the closed forms\<close>



lemma P3_strict_mono:
  fixes x y :: real
  assumes "0 \<le> x" "x < y" "y \<le> 1"
  shows "x * x * (3 - 2 * x) < y * y * (3 - 2 * y)"
proof -
  have e: "y * y * (3 - 2 * y) - x * x * (3 - 2 * x)
      = (y - x) * (x * (3 - 2 * x - y) + y * (3 - 2 * y - x))"
    by (simp add: algebra_simps)
  have "0 \<le> x * (3 - 2 * x - y)" using assms by (intro mult_nonneg_nonneg) auto
  moreover have "0 < y * (3 - 2 * y - x)" using assms by (intro mult_pos_pos) auto
  ultimately have p: "0 < x * (3 - 2 * x - y) + y * (3 - 2 * y - x)" by linarith
  have "0 < y - x" using assms by simp
  from mult_pos_pos[OF this p] e show ?thesis by linarith
qed

section \<open>The claims\<close>

subsection \<open>Round trip\<close>

text \<open>
  C1. The claim: for every curve and every \<open>t\<close> in \<open>[0, 1]\<close>, \<open>InvTransform\<close> applied to
  \<open>Transform t\<close> gives \<open>t\<close> back, in particular for the reflection \<^verbatim>\<open>NLOmt\<close> of the
  square curve. The code does not do that: \<^verbatim>\<open>NLOmt.InvTransform\<close> reflects its argument
  twice, so that it computes \<open>1 - F.InvTransform v\<close>. On the reflected square curve, a
  valid curve, \<open>t = 2/5\<close> is mapped to \<open>16/25\<close>, and \<open>16/25\<close> is mapped back to \<open>1/5\<close>.
\<close>

theorem NLOmt_InvTransform_not_inverse:
  "valid (NewNLOmt NLSquare) \<and>
   Transform (NewNLOmt NLSquare) (Fin (2 / 5)) = Inr (Fin (16 / 25)) \<and>
   InvTransform (NewNLOmt NLSquare) (Fin (16 / 25)) = Inr (Fin (1 / 5))"
proof -
  have "sqrt (16 / 25) = 4 / 5"
    by (rule real_sqrt_unique) (simp_all add: power2_eq_square)
  then show ?thesis
    by (simp add: NewNLOmt_def fsub_def fgt_def)
qed

subsection \<open>The stopped curve\<close>

text \<open>
  C2. The claim: on a well-formed stop list \<open>Transform\<close> is the piecewise-linear
  interpolation through the stops, the segment starting at the last stop at or below
  \<open>t\<close>. The code does not do that between the first and the second stop: the loop takes
  the previous stop only when \<open>i > 1\<close>, so that at \<open>i = 1\<close> the segment starts at
  \<open>(0, 0)\<close>. On the stop list of the plotting program, which is well-formed, the code
  gives \<open>0.294\<close> at \<open>t = 0.245\<close>, where the interpolation between \<open>(0.24, 0.1)\<close> and
  \<open>(0.25, 0.3)\<close> gives \<open>0.2\<close>.
\<close>

theorem NLStopped_Transform_second_segment:
  "wfStops [[Fin 0.24, Fin 0.1], [Fin 0.25, Fin 0.3], [Fin 0.49, Fin 0.4],
            [Fin 0.5, Fin 0.6], [Fin 0.74, Fin 0.7], [Fin 0.75, Fin 0.9]] \<and>
   Transform (NewNLStopped [[Fin 0.24, Fin 0.1], [Fin 0.25, Fin 0.3], [Fin 0.49, Fin 0.4],
                            [Fin 0.5, Fin 0.6], [Fin 0.74, Fin 0.7], [Fin 0.75, Fin 0.9]])
     (Fin 0.245) = Inr (Fin 0.294) \<and>
   specStopped [(0.24, 0.1), (0.25, 0.3), (0.49, 0.4), (0.5, 0.6), (0.74, 0.7), (0.75, 0.9)]
     0.245 = 0.2"
  by (simp add: NewNLStopped_def StoppedTransform_def stoppedScan.simps index2_def index_def
      fsub_def fgt_def specStopped_def specLower_def specUpper_def wfStops_def stopT_def
      stopV_def)

subsection \<open>End points\<close>




subsection \<open>Monotonicity\<close>

text \<open>
  C4. The claim: the transform of every valid curve is monotonic on \<open>[0, 1]\<close>. The
  stopped curve is not, by the defect of C2: where the first segment is steeper than
  the line from \<open>(0, 0)\<close> to the second stop, the value drops at the first stop. With
  the stops \<open>(0.25, 0.5)\<close> and \<open>(0.75, 0.9)\<close> the code gives \<open>0.4\<close> at \<open>t = 0.2\<close> and
  \<open>0.3\<close> at \<open>t = 0.25\<close>.
\<close>

theorem NLStopped_Transform_not_monotone:
  "valid (NewNLStopped [[Fin 0.25, Fin 0.5], [Fin 0.75, Fin 0.9]]) \<and>
   Transform (NewNLStopped [[Fin 0.25, Fin 0.5], [Fin 0.75, Fin 0.9]]) (Fin 0.2)
     = Inr (Fin 0.4) \<and>
   Transform (NewNLStopped [[Fin 0.25, Fin 0.5], [Fin 0.75, Fin 0.9]]) (Fin 0.25)
     = Inr (Fin 0.3)"
  by (simp add: NewNLStopped_def StoppedTransform_def stoppedScan.simps index2_def index_def
      fsub_def fgt_def wfStops_def stopT_def stopV_def)

subsection \<open>The numerical inverse\<close>

text \<open>
  C5. \<^verbatim>\<open>bsInv\<close> runs its sixteen iterations from \<open>t = 0.5\<close> and step \<open>0.25\<close> with no
  test of convergence: for a strictly increasing curve \<open>g\<close> on \<open>[0, 1]\<close> and \<open>t\<close> in
  \<open>[0, 1]\<close>, the helper applied to \<open>g t\<close> returns a value within \<open>2\<^sup>-\<^sup>1\<^sup>6\<close> of \<open>t\<close>, and
  that value is an odd multiple of \<open>2\<^sup>-\<^sup>1\<^sup>7\<close>, which is where sixteen halvings of the
  step end, whether or not an earlier estimate was exact. The theorem needs neither
  the continuity of \<open>g\<close> nor its values at 0 and 1.
\<close>

theorem bsInv_precision:
  assumes "\<forall>x y. 0 \<le> x \<and> x < y \<and> y \<le> 1 \<longrightarrow> g x < g y"
    and "\<forall>x. 0 \<le> x \<and> x \<le> 1 \<longrightarrow> f (Fin x) = Inr (Fin (g x))"
    and "0 \<le> t" and "t \<le> 1"
  shows "\<exists>r. bsInv (Fin (g t)) f = Inr (Fin r) \<and> \<bar>r - t\<bar> \<le> 1 / 2 ^ 16 \<and>
    (\<exists>k::nat. r = (2 * real k + 1) / 2 ^ 17)"
proof -
  have "\<bar>1 / 2 - t\<bar> \<le> 2 * (1 / 4)" using assms(3,4) by linarith
  from bsLoop_bound[OF assms, of "1 / 4" "1 / 2" 16] this
  obtain r where r: "bsLoop 16 (Fin (1 / 2)) (Fin (1 / 4)) (Fin (g t)) f = Inr (Fin r)"
    and b: "\<bar>r - t\<bar> \<le> 2 * (1 / 4) / 2 ^ 16" by auto
  have inv: "bsInv (Fin (g t)) f = Inr (Fin r)" using r by (simp add: bsInv_def)
  have "\<bar>r - t\<bar> \<le> 1 / 2 ^ 16" using b by simp
  moreover from bsInv_odd[OF inv] have "\<exists>k::nat. r = (2 * real k + 1) / 2 ^ 17" by simp
  ultimately show ?thesis using inv by blast
qed

theorem bsInv_precision_witness:
  "\<exists>r. bsInv (Fin (7 / 27)) (Transform NLP3) = Inr (Fin r) \<and> \<bar>r - 1 / 3\<bar> \<le> 1 / 2 ^ 16 \<and>
    (\<exists>k::nat. r = (2 * real k + 1) / 2 ^ 17)"
proof -
  have m: "\<forall>x y::real. 0 \<le> x \<and> x < y \<and> y \<le> 1 \<longrightarrow> x * x * (3 - 2 * x) < y * y * (3 - 2 * y)"
    using P3_strict_mono by blast
  have f: "\<forall>x. 0 \<le> x \<and> x \<le> 1 \<longrightarrow>
      Transform NLP3 (Fin x) = Inr (Fin (x * x * (3 - 2 * x)))"
    by (simp add: fsub_def)
  have a: "(0::real) \<le> 1 / 3" "(1 / 3::real) \<le> 1" by simp_all
  have g: "(1 / 3::real) * (1 / 3) * (3 - 2 * (1 / 3)) = 7 / 27" by simp
  show ?thesis using bsInv_precision[OF m f a] unfolding g .
qed

text \<open>
  C9. Whatever the curve and the target, a value that \<^verbatim>\<open>bsInv\<close> returns lies between
  \<open>2\<^sup>-\<^sup>1\<^sup>7\<close> and \<open>1 - 2\<^sup>-\<^sup>1\<^sup>7\<close>, and \<^verbatim>\<open>bsInv\<close> returns whenever the transform of the curve
  does. So the inverses of \<^verbatim>\<open>NLP3\<close>, of \<^verbatim>\<open>NLP5\<close> and of a stopped curve with well-formed
  stops return such a value for every \<open>v\<close>, never 0 and never 1.
\<close>

theorem bsInv_range:
  "(bsInv v f = Inr r \<longrightarrow> (\<exists>t. r = Fin t \<and> 1 / 2 ^ 17 \<le> t \<and> t \<le> 1 - 1 / 2 ^ 17)) \<and>
   ((\<forall>x. \<exists>y. f x = Inr y) \<longrightarrow> (\<exists>r. bsInv v f = Inr r)) \<and>
   (c = NLP3 \<or> c = NLP5 \<or> (\<exists>stops. c = NLStopped stops \<and> wfStops stops) \<longrightarrow>
      (\<exists>t. InvTransform c v = Inr (Fin t) \<and> 1 / 2 ^ 17 \<le> t \<and> t \<le> 1 - 1 / 2 ^ 17))"
proof (intro conjI impI)
  assume "bsInv v f = Inr r"
  then show "\<exists>t. r = Fin t \<and> 1 / 2 ^ 17 \<le> t \<and> t \<le> 1 - 1 / 2 ^ 17"
    by (rule bsInv_in_range)
next
  assume "\<forall>x. \<exists>y. f x = Inr y"
  then show "\<exists>r. bsInv v f = Inr r" by (rule bsInv_returns)
next
  assume c: "c = NLP3 \<or> c = NLP5 \<or> (\<exists>stops. c = NLStopped stops \<and> wfStops stops)"
  then have tot: "\<forall>x. \<exists>y. Transform c x = Inr y"
    by (auto simp: StoppedTransform_returns)
  from c have inv: "InvTransform c v = bsInv v (Transform c)" by auto
  from bsInv_returns[OF tot] obtain r where r: "bsInv v (Transform c) = Inr r" by blast
  from bsInv_in_range[OF r] r inv
  show "\<exists>t. InvTransform c v = Inr (Fin t) \<and> 1 / 2 ^ 17 \<le> t \<and> t \<le> 1 - 1 / 2 ^ 17"
    by auto
qed

theorem bsInv_range_witness:
  "(\<exists>t. InvTransform NLP3 (Fin 0) = Inr (Fin t) \<and> 1 / 2 ^ 17 \<le> t \<and> t \<le> 1 - 1 / 2 ^ 17) \<and>
   (\<exists>t. InvTransform (NLStopped [[Fin 0.25, Fin 0.3], [Fin 0.5, Fin 0.6]]) (Fin 1)
          = Inr (Fin t) \<and> 1 / 2 ^ 17 \<le> t \<and> t \<le> 1 - 1 / 2 ^ 17) \<and>
   (\<exists>r. bsInv NaN (Transform NLLinear) = Inr r)"
proof -
  have w: "wfStops [[Fin 0.25, Fin 0.3], [Fin 0.5, Fin 0.6]]"
    by (simp add: wfStops_def stopT_def stopV_def)
  have l: "\<forall>x. \<exists>y. Transform NLLinear x = Inr y" by simp
  from bsInv_range[of "Fin 0" "Transform NLP3" "Fin 0" NLP3]
    bsInv_range[of "Fin 1" "Transform NLP3" "Fin 0"
      "NLStopped [[Fin 0.25, Fin 0.3], [Fin 0.5, Fin 0.6]]"]
    bsInv_range[of NaN "Transform NLLinear" "Fin 0" NLP3] w l
  show ?thesis by simp
qed

subsection \<open>Interpolation\<close>

text \<open>
  C6. \<^verbatim>\<open>NLerp\<close> returns \<open>start\<close> for every \<open>t < 0\<close> and \<open>end\<close> for every \<open>t > 1\<close>, whatever
  the curve, whose transform is not called (it may be one that panics on every input);
  for \<open>t\<close> in \<open>[0, 1]\<close> it returns \<open>(1 - w) * start + w * end\<close> where \<open>w\<close> is the transform
  of the curve at \<open>t\<close>.
\<close>

theorem NLerp_cases:
  "(flt t (Fin 0) \<longrightarrow> NLerp t a b f = Inr a) \<and>
   (fgt t (Fin 1) \<longrightarrow> NLerp t a b f = Inr b) \<and>
   (0 \<le> r \<and> r \<le> 1 \<longrightarrow>
      NLerp (Fin r) a b f =
        (case f (Fin r) of
           Inl e \<Rightarrow> Inl e
         | Inr w \<Rightarrow> Inr (fadd (fmul (fsub (Fin 1) w) a) (fmul w b))))"
  by (auto simp: NLerp_def flt_gt_one_not_lt_zero fgt_def bindE_def)

theorem NLerp_cases_witness:
  "NLerp (Fin (- 1)) (Fin 10) (Fin 20) (Transform (NewNLStopped [])) = Inr (Fin 10) \<and>
   NLerp (Fin 2) (Fin 10) (Fin 20) (Transform (NewNLStopped [])) = Inr (Fin 20) \<and>
   NLerp (Fin (1 / 2)) (Fin 10) (Fin 20) (Transform NLSquare) = Inr (Fin (25 / 2))"
  using NLerp_cases[of "Fin (- 1)" "Fin 10" "Fin 20" "Transform (NewNLStopped [])" 0]
    NLerp_cases[of "Fin 2" "Fin 10" "Fin 20" "Transform (NewNLStopped [])" 0]
    NLerp_cases[of "Fin 0" "Fin 10" "Fin 20" "Transform NLSquare" "1 / 2"]
  by (simp add: fgt_def fsub_def)

text \<open>
  C7. The claim: when \<open>end = start\<close>, \<^verbatim>\<open>InvNLerp\<close> returns 0 or 1 for every \<open>v\<close>, and the
  inverse of the curve is not applied. With \<open>v = start = end = 0\<close> the quotient is
  \<open>0 / 0\<close>, which is NaN; NaN is neither below 0 nor above 1, so the inverse of the
  curve is applied to it, and the linear curve returns NaN.
\<close>

theorem InvNLerp_degenerate_counterexample:
  "InvNLerp (Fin 0) (Fin 0) (Fin 0) (InvTransform NLLinear) = Inr NaN"
  by (simp add: InvNLerp_def fsub_def fgt_def)

text \<open>
  C7, amended. When \<open>end = start\<close>, both finite, and \<open>v\<close> is a finite value other than
  \<open>start\<close>, \<^verbatim>\<open>InvNLerp\<close> returns 0 or 1 and the inverse of the curve is not applied; when
  \<open>v = start\<close> the result is the inverse of the curve applied to NaN.
\<close>

theorem InvNLerp_degenerate:
  "(v \<noteq> s \<longrightarrow> InvNLerp (Fin v) (Fin s) (Fin s) f \<in> {Inr (Fin 0), Inr (Fin 1)}) \<and>
   InvNLerp (Fin s) (Fin s) (Fin s) f = f NaN"
  by (auto simp: InvNLerp_def fsub_def fgt_def signed_inf_def)

theorem InvNLerp_degenerate_witness:
  "InvNLerp (Fin 3) (Fin 2) (Fin 2) (InvTransform (NewNLStopped []))
     \<in> {Inr (Fin 0), Inr (Fin 1)} \<and>
   InvNLerp (Fin 2) (Fin 2) (Fin 2) (InvTransform NLSquare) = Inr NaN"
  using InvNLerp_degenerate[of 3 2 "InvTransform (NewNLStopped [])"]
    InvNLerp_degenerate[of 2 2 "InvTransform NLSquare"]
  by simp

subsection \<open>The superellipse and the circle\<close>

text \<open>
  C8. The superellipse with exponents 2 and 2 is the curve \<^verbatim>\<open>NLCircle1\<close>: their
  transforms agree at every \<open>t\<close> in \<open>[0, 1]\<close>, and so do their inverse transforms,
  exactly over the reals.
\<close>

theorem NLLame_2_2_eq_NLCircle1:
  "0 \<le> t \<and> t \<le> 1 \<longrightarrow>
   Transform (NewNLLame (Fin 2) (Fin 2)) (Fin t) = Transform NLCircle1 (Fin t) \<and>
   InvTransform (NewNLLame (Fin 2) (Fin 2)) (Fin t) = InvTransform NLCircle1 (Fin t)"
proof
  assume t: "0 \<le> t \<and> t \<le> 1"
  have a: "0 \<le> 1 - t * t" using t by (simp add: mult_le_one)
  have "(1 - t) * (1 - t) \<le> 1" using t by (simp add: mult_le_one)
  then have b: "0 \<le> 1 - (1 - t) * (1 - t)" by simp
  have c: "(t - 1) * (t - 1) = (1 - t) * (1 - t)" by (simp add: algebra_simps)
  show "Transform (NewNLLame (Fin 2) (Fin 2)) (Fin t) = Transform NLCircle1 (Fin t) \<and>
   InvTransform (NewNLLame (Fin 2) (Fin 2)) (Fin t) = InvTransform NLCircle1 (Fin t)"
    using a b by (simp add: NewNLLame_def fsub_def Pow_two Pow_half c)
qed

theorem NLLame_2_2_eq_NLCircle1_witness:
  "Transform (NewNLLame (Fin 2) (Fin 2)) (Fin (3 / 5)) = Inr (Fin (1 / 5)) \<and>
   Transform NLCircle1 (Fin (3 / 5)) = Inr (Fin (1 / 5)) \<and>
   InvTransform (NewNLLame (Fin 2) (Fin 2)) (Fin (3 / 5))
     = InvTransform NLCircle1 (Fin (3 / 5))"
proof -
  have "sqrt (16 / 25) = 4 / 5"
    by (rule real_sqrt_unique) (simp_all add: power2_eq_square)
  then have "Transform NLCircle1 (Fin (3 / 5)) = Inr (Fin (1 / 5))"
    by (simp add: fsub_def)
  with NLLame_2_2_eq_NLCircle1[of "3 / 5"] show ?thesis by simp
qed

subsection \<open>The empty stop list\<close>

text \<open>
  C10. \<^verbatim>\<open>NewNLStopped\<close> accepts the empty list, and the transform of the curve it
  returns panics at every \<open>t\<close>, on the element of index \<open>-1\<close>.
\<close>

theorem NLStopped_empty_panics:
  "NewNLStopped [] = NLStopped [] \<and>
   Transform (NewNLStopped []) t = Inl (IndexOutOfRange (- 1) 0)"
  by (simp add: NewNLStopped_def StoppedTransform_def stoppedScan.simps index2_def index_def)

end
